theory Spec2Isabelle
  imports Complex_Main "HOL-Library.AList"
begin

section \<open>Conventions of the embedding\<close>

text \<open>
  The development embeds \<^verbatim>\<open>src/portfolio_simulation.py\<close>.

  \<^item> Python's \<^verbatim>\<open>float\<close> values (shares, amounts, prices) are values of type \<^typ>\<open>real\<close>.
    The ledger is embedded twice. \<open>process_row\<close> and the functions it calls read every
    \<^verbatim>\<open>+\<close>, \<^verbatim>\<open>-\<close>, \<^verbatim>\<open>*\<close> and \<^verbatim>\<open>/\<close> as the exact operation. \<open>process_row_fl\<close> and the
    functions it calls take a rounding function \<open>rnd\<close> and apply it to the result of every
    such operation, as double-precision arithmetic does; \<open>double_round\<close> is the rounding of
    binary64 (to nearest, ties to even). What depends on rounding is stated on the second
    reading. The special values \<^verbatim>\<open>nan\<close> and \<^verbatim>\<open>inf\<close>, overflow and subnormal numbers are
    outside the model.
  \<^item> A \<^verbatim>\<open>Dict[str, HoldingsData]\<close> is an association list in insertion order (Python
    dictionaries iterate in insertion order); \<^const>\<open>map_of\<close> is the lookup and
    \<^const>\<open>AList.update\<close> the assignment \<^verbatim>\<open>d[k] = v\<close> (in place for a present key, appended
    for a new one).
  \<^item> Every \<^verbatim>\<open>print\<close> of a warning appends a value of type \<open>warning\<close> to a log carried in
    the state.
  \<^item> A CSV row carries, for the columns \<^verbatim>\<open>Amount\<close> and \<^verbatim>\<open>Shares\<close>, the outcome of
    \<^verbatim>\<open>float(...)\<close> on the cleaned text: \<open>Some x\<close> for a number (an absent or empty column
    is \<^verbatim>\<open>'0.0'\<close> in the source, hence \<open>Some 0\<close>), \<open>None\<close> for \<^verbatim>\<open>ValueError\<close>. The column
    \<^verbatim>\<open>Date\<close> carries the \<^verbatim>\<open>%Y-%m-%d\<close> text of the parsed date, \<open>None\<close> for an invalid date.
\<close>

section \<open>Strings\<close>

text \<open>\<^verbatim>\<open>str.lower\<close> and \<^verbatim>\<open>str.strip\<close> on ASCII text (bytes outside ASCII are left alone).\<close>

definition lower_char :: "char \<Rightarrow> char" where
  "lower_char c =
     (case map_of (zip ''ABCDEFGHIJKLMNOPQRSTUVWXYZ'' ''abcdefghijklmnopqrstuvwxyz'') c of
        Some d \<Rightarrow> d | None \<Rightarrow> c)"

definition lower :: "string \<Rightarrow> string" where
  "lower s = map lower_char s"

definition is_space :: "char \<Rightarrow> bool" where
  "is_space c \<longleftrightarrow>
     c \<in> set [CHR '' '', CHR 0x09, CHR 0x0A, CHR 0x0B, CHR 0x0C, CHR 0x0D,
              CHR 0x1C, CHR 0x1D, CHR 0x1E, CHR 0x1F]"

definition strip :: "string \<Rightarrow> string" where
  "strip s = rev (dropWhile is_space (rev (dropWhile is_space s)))"

section \<open>Module constants and the instrument resolver\<close>

definition FIXED_PRICES :: "(string \<times> real) list" where
  "FIXED_PRICES =
     [(''amundi msci world v (acc)'', 18.80),
      (''ishares core msci europe (acc)'', 78.96),
      (''amundi msci emerging markets ii (dist)'', 47.12)]"

definition ALIAS_MAPPING :: "(string \<times> string list) list" where
  "ALIAS_MAPPING =
     [(''amundi msci world v (acc)'',
         [''amundi msci world v (acc)'',
          ''amundi msci world v ucits etf acc'',
          ''amundi msci world v'',
          ''lyxor core msci world (dr) ucits etf - acc'']),
      (''ishares core msci europe (acc)'',
         [''ishares core msci europe (acc)'',
          ''ishares core msci europe ucits etf eur (acc)'',
          ''ishares core msci europe ucits etf eur'',
          ''ishares core msci europe'']),
      (''amundi msci emerging markets ii (dist)'',
         [''amundi msci emerging markets ii (dist)'',
          ''amundi msci emerging markets ii ucits etf dist'',
          ''amundi msci emerging markets ii ucits etf'',
          ''amundi msci emerging markets ii'',
          ''lyxor msci emerging markets (lux) ucits etf'',
          ''lu2573966905''])]"

text \<open>The reverse mapping, built by the two nested loops at module level.\<close>

definition INSTRUMENT_ALIAS :: "(string \<times> string) list" where
  "INSTRUMENT_ALIAS =
     fold (\<lambda>(canonical_name, aliases) d.
             fold (\<lambda>alias. AList.update (lower alias) canonical_name) aliases d)
          ALIAS_MAPPING []"

definition get_canonical_name :: "string \<Rightarrow> string" where
  "get_canonical_name instrument_name =
     (case map_of INSTRUMENT_ALIAS (lower instrument_name) of
        Some canonical_name \<Rightarrow> canonical_name
      | None \<Rightarrow> lower instrument_name)"

section \<open>Data model\<close>

record Lot =
  date :: string
  shares :: real
  cost_per_share :: real

record HoldingsData =
  lots :: "Lot list"
  total_shares :: real
  current_price :: "real option"
  current_value :: "real option"
  total_cost :: "real option"
  unrealized_pl :: "real option"

text \<open>\<^verbatim>\<open>HoldingsData(lots=[], total_shares=0.0)\<close>: the four derived fields default to \<^verbatim>\<open>None\<close>.\<close>

definition new_entry :: HoldingsData where
  "new_entry = \<lparr>lots = [], total_shares = 0, current_price = None, current_value = None,
                 total_cost = None, unrealized_pl = None\<rparr>"

record Row =
  Transaction_Type :: string
  Instrument_Name :: string
  Amount :: "real option"
  Shares :: "real option"
  Date :: "string option"

datatype warning =
    Invalid_Distribution_Amount Row
  | Skipping_Invalid_Transaction Row
  | Sold_More_Than_Owned string
  | Sold_Not_In_Holdings string
  | No_Fixed_Price string

record PortfolioState =
  holdings :: "(string \<times> HoldingsData) list"
  realized_pl :: real
  warnings :: "warning list"

definition empty_state :: PortfolioState where
  "empty_state = \<lparr>holdings = [], realized_pl = 0, warnings = []\<rparr>"

text \<open>The sum of the shares of a lot queue, \<^verbatim>\<open>sum(lot.shares for lot in lots)\<close>.\<close>

definition lot_shares_sum :: "Lot list \<Rightarrow> real" where
  "lot_shares_sum ls = sum_list (map shares ls)"

section \<open>The holdings ledger: \<^verbatim>\<open>process_transactions\<close>\<close>

text \<open>
  This section reads the arithmetic of the source as exact; the ledger with every result
  rounded follows the next section, function by function under the same names with the
  suffix \<open>_fl\<close>.

  The \<^verbatim>\<open>while shares_to_sell > 0 and holdings[c].lots\<close> loop. The loop state is
  \<open>(shares_to_sell, lots, total_shares, realized_pl)\<close>. In the partial branch the source sets
  \<^verbatim>\<open>shares_to_sell = 0\<close>, so the guard fails at the next test and the loop ends there.
\<close>

fun fifo_loop :: "real \<Rightarrow> real \<Rightarrow> Lot list \<Rightarrow> real \<Rightarrow> real \<Rightarrow> real \<times> Lot list \<times> real \<times> real" where
  "fifo_loop sale_price_per_share shares_to_sell [] tot rpl = (shares_to_sell, [], tot, rpl)"
| "fifo_loop sale_price_per_share shares_to_sell (lot # rest) tot rpl =
     (if shares_to_sell > 0 then
        (if shares lot \<le> shares_to_sell then
           fifo_loop sale_price_per_share (shares_to_sell - shares lot) rest
             (tot - shares lot)
             (rpl + (sale_price_per_share - cost_per_share lot) * shares lot)
         else
           (0, lot\<lparr>shares := shares lot - shares_to_sell\<rparr> # rest,
            tot - shares_to_sell,
            rpl + (sale_price_per_share - cost_per_share lot) * shares_to_sell))
      else (shares_to_sell, lot # rest, tot, rpl))"

definition buy :: "PortfolioState \<Rightarrow> string \<Rightarrow> string \<Rightarrow> real \<Rightarrow> real \<Rightarrow> PortfolioState" where
  "buy st instrument_canonical d amount n =
     (let h = (case map_of (holdings st) instrument_canonical of
                 None \<Rightarrow> new_entry | Some h \<Rightarrow> h);
          cps = (if n \<noteq> 0 then \<bar>amount / n\<bar> else 0)
      in st\<lparr>holdings :=
              AList.update instrument_canonical
                (h\<lparr>lots := lots h @ [\<lparr>date = d, shares = n, cost_per_share = cps\<rparr>],
                   total_shares := total_shares h + n\<rparr>)
                (holdings st)\<rparr>)"

definition sell :: "PortfolioState \<Rightarrow> string \<Rightarrow> real \<Rightarrow> real \<Rightarrow> PortfolioState" where
  "sell st instrument_canonical amount n =
     (case map_of (holdings st) instrument_canonical of
        Some h \<Rightarrow>
          (let sale_price_per_share = (if n \<noteq> 0 then amount / n else 0)
           in case fifo_loop sale_price_per_share n (lots h) (total_shares h) (realized_pl st) of
                (shares_to_sell, ls, tot, rpl) \<Rightarrow>
                  st\<lparr>holdings :=
                       AList.update instrument_canonical
                         (h\<lparr>lots := ls, total_shares := tot\<rparr>) (holdings st),
                     realized_pl := rpl,
                     warnings := warnings st @
                       (if shares_to_sell > 0 then [Sold_More_Than_Owned instrument_canonical]
                        else [])\<rparr>)
      | None \<Rightarrow> st\<lparr>warnings := warnings st @ [Sold_Not_In_Holdings instrument_canonical]\<rparr>)"

text \<open>The body of the \<^verbatim>\<open>for row in transactions\<close> loop; \<^verbatim>\<open>continue\<close> returns the state.\<close>

definition process_row :: "PortfolioState \<Rightarrow> Row \<Rightarrow> PortfolioState" where
  "process_row st row =
     (let transaction_type = strip (Transaction_Type row);
          instrument = strip (Instrument_Name row);
          d = (case Date row of Some s \<Rightarrow> s | None \<Rightarrow> ''Unknown'');
          instrument_canonical = get_canonical_name instrument
      in if transaction_type \<in> set [''Deposit'', ''Withdrawal''] then st
         else if transaction_type = ''Distribution'' then
           (case Amount row of
              Some amount \<Rightarrow> st\<lparr>realized_pl := realized_pl st + amount\<rparr>
            | None \<Rightarrow> st\<lparr>warnings := warnings st @ [Invalid_Distribution_Amount row]\<rparr>)
         else
           (case (Amount row, Shares row) of
              (Some amount, Some n) \<Rightarrow>
                if transaction_type \<in> set [''Buy'', ''Savings Plan'', ''Swap in'']
                then buy st instrument_canonical d amount n
                else if transaction_type \<in> set [''Sell'', ''Swap out'']
                then sell st instrument_canonical amount n
                else st
            | _ \<Rightarrow> st\<lparr>warnings := warnings st @ [Skipping_Invalid_Transaction row]\<rparr>))"

fun run_rows :: "PortfolioState \<Rightarrow> Row list \<Rightarrow> PortfolioState" where
  "run_rows st [] = st"
| "run_rows st (row # rows) = run_rows (process_row st row) rows"

definition process_transactions :: "Row list \<Rightarrow> PortfolioState" where
  "process_transactions transactions = run_rows empty_state transactions"

section \<open>Double-precision arithmetic\<close>




section \<open>The holdings ledger in rounded arithmetic\<close>

text \<open>
  The same loop and the same branches as \<open>fifo_loop\<close>, \<open>buy\<close>, \<open>sell\<close> and
  \<open>process_row\<close>, with the rounding \<open>rnd\<close> applied to the result of every arithmetic
  operation of the source: \<^verbatim>\<open>total_shares += shares\<close> is \<open>rnd (total_shares + n)\<close>,
  \<^verbatim>\<open>(sale_price_per_share - lot.cost_per_share) * lot_shares\<close> is two rounded operations,
  and so on. \<^verbatim>\<open>abs\<close> and the comparisons are exact.
\<close>

fun fifo_loop_fl ::
  "(real \<Rightarrow> real) \<Rightarrow> real \<Rightarrow> real \<Rightarrow> Lot list \<Rightarrow> real \<Rightarrow> real
     \<Rightarrow> real \<times> Lot list \<times> real \<times> real" where
  "fifo_loop_fl rnd sale_price_per_share shares_to_sell [] tot rpl = (shares_to_sell, [], tot, rpl)"
| "fifo_loop_fl rnd sale_price_per_share shares_to_sell (lot # rest) tot rpl =
     (if shares_to_sell > 0 then
        (if shares lot \<le> shares_to_sell then
           fifo_loop_fl rnd sale_price_per_share (rnd (shares_to_sell - shares lot)) rest
             (rnd (tot - shares lot))
             (rnd (rpl + rnd (rnd (sale_price_per_share - cost_per_share lot) * shares lot)))
         else
           (0, lot\<lparr>shares := rnd (shares lot - shares_to_sell)\<rparr> # rest,
            rnd (tot - shares_to_sell),
            rnd (rpl + rnd (rnd (sale_price_per_share - cost_per_share lot) * shares_to_sell))))
      else (shares_to_sell, lot # rest, tot, rpl))"

definition buy_fl ::
  "(real \<Rightarrow> real) \<Rightarrow> PortfolioState \<Rightarrow> string \<Rightarrow> string \<Rightarrow> real \<Rightarrow> real \<Rightarrow> PortfolioState" where
  "buy_fl rnd st instrument_canonical d amount n =
     (let h = (case map_of (holdings st) instrument_canonical of
                 None \<Rightarrow> new_entry | Some h \<Rightarrow> h);
          cps = (if n \<noteq> 0 then \<bar>rnd (amount / n)\<bar> else 0)
      in st\<lparr>holdings :=
              AList.update instrument_canonical
                (h\<lparr>lots := lots h @ [\<lparr>date = d, shares = n, cost_per_share = cps\<rparr>],
                   total_shares := rnd (total_shares h + n)\<rparr>)
                (holdings st)\<rparr>)"

definition sell_fl ::
  "(real \<Rightarrow> real) \<Rightarrow> PortfolioState \<Rightarrow> string \<Rightarrow> real \<Rightarrow> real \<Rightarrow> PortfolioState" where
  "sell_fl rnd st instrument_canonical amount n =
     (case map_of (holdings st) instrument_canonical of
        Some h \<Rightarrow>
          (let sale_price_per_share = (if n \<noteq> 0 then rnd (amount / n) else 0)
           in case fifo_loop_fl rnd sale_price_per_share n (lots h) (total_shares h)
                     (realized_pl st) of
                (shares_to_sell, ls, tot, rpl) \<Rightarrow>
                  st\<lparr>holdings :=
                       AList.update instrument_canonical
                         (h\<lparr>lots := ls, total_shares := tot\<rparr>) (holdings st),
                     realized_pl := rpl,
                     warnings := warnings st @
                       (if shares_to_sell > 0 then [Sold_More_Than_Owned instrument_canonical]
                        else [])\<rparr>)
      | None \<Rightarrow> st\<lparr>warnings := warnings st @ [Sold_Not_In_Holdings instrument_canonical]\<rparr>)"

definition process_row_fl :: "(real \<Rightarrow> real) \<Rightarrow> PortfolioState \<Rightarrow> Row \<Rightarrow> PortfolioState" where
  "process_row_fl rnd st row =
     (let transaction_type = strip (Transaction_Type row);
          instrument = strip (Instrument_Name row);
          d = (case Date row of Some s \<Rightarrow> s | None \<Rightarrow> ''Unknown'');
          instrument_canonical = get_canonical_name instrument
      in if transaction_type \<in> set [''Deposit'', ''Withdrawal''] then st
         else if transaction_type = ''Distribution'' then
           (case Amount row of
              Some amount \<Rightarrow> st\<lparr>realized_pl := rnd (realized_pl st + amount)\<rparr>
            | None \<Rightarrow> st\<lparr>warnings := warnings st @ [Invalid_Distribution_Amount row]\<rparr>)
         else
           (case (Amount row, Shares row) of
              (Some amount, Some n) \<Rightarrow>
                if transaction_type \<in> set [''Buy'', ''Savings Plan'', ''Swap in'']
                then buy_fl rnd st instrument_canonical d amount n
                else if transaction_type \<in> set [''Sell'', ''Swap out'']
                then sell_fl rnd st instrument_canonical amount n
                else st
            | _ \<Rightarrow> st\<lparr>warnings := warnings st @ [Skipping_Invalid_Transaction row]\<rparr>))"

fun run_rows_fl :: "(real \<Rightarrow> real) \<Rightarrow> PortfolioState \<Rightarrow> Row list \<Rightarrow> PortfolioState" where
  "run_rows_fl rnd st [] = st"
| "run_rows_fl rnd st (row # rows) = run_rows_fl rnd (process_row_fl rnd st row) rows"

definition process_transactions_fl :: "(real \<Rightarrow> real) \<Rightarrow> Row list \<Rightarrow> PortfolioState" where
  "process_transactions_fl rnd transactions = run_rows_fl rnd empty_state transactions"

section \<open>The valuation engine: \<^verbatim>\<open>simulate_portfolio\<close>\<close>

text \<open>
  The loop over \<^verbatim>\<open>holdings.items()\<close>. The entries are mutated in place in the source; the
  model collects the entries already visited in \<open>seen\<close> and returns them as the updated
  dictionary. The inner loop \<^verbatim>\<open>for lot in data.lots: total_cost += ...\<close> is the \<^const>\<open>fold\<close>.
\<close>

fun simulate_loop ::
  "(string \<times> HoldingsData) list \<Rightarrow> (string \<times> HoldingsData) list \<Rightarrow> real \<Rightarrow> real
     \<Rightarrow> warning list \<Rightarrow> (string \<times> HoldingsData) list \<times> real \<times> real \<times> warning list" where
  "simulate_loop [] seen total_current_value total_unrealized_pl ws =
     (seen, total_current_value, total_unrealized_pl, ws)"
| "simulate_loop ((instrument, data) # rest) seen total_current_value total_unrealized_pl ws =
     (if total_shares data > 0 then
        (case map_of FIXED_PRICES instrument of
           None \<Rightarrow>
             simulate_loop rest (seen @ [(instrument, data)]) total_current_value
               total_unrealized_pl (ws @ [No_Fixed_Price instrument])
         | Some price \<Rightarrow>
             (let total_value = total_shares data * price;
                  tc = fold (\<lambda>lot tc. tc + shares lot * cost_per_share lot) (lots data) 0;
                  upl = total_value - tc;
                  data' = data\<lparr>current_price := Some price, current_value := Some total_value,
                               total_cost := Some tc, unrealized_pl := Some upl\<rparr>
              in simulate_loop rest (seen @ [(instrument, data')])
                   (total_current_value + total_value) (total_unrealized_pl + upl) ws))
      else simulate_loop rest (seen @ [(instrument, data)]) total_current_value
             total_unrealized_pl ws)"

text \<open>
  The result is the returned tuple \<open>(holdings, total_current_value, total_profit,
  total_unrealized_pl, realized_pl)\<close> together with the warnings printed.
\<close>

definition simulate_portfolio ::
  "(string \<times> HoldingsData) list \<Rightarrow> real
     \<Rightarrow> ((string \<times> HoldingsData) list \<times> real \<times> real \<times> real \<times> real) \<times> warning list" where
  "simulate_portfolio hs rpl =
     (case simulate_loop hs [] 0 0 [] of
        (hs', total_current_value, total_unrealized_pl, ws) \<Rightarrow>
          ((hs', total_current_value, rpl + total_unrealized_pl, total_unrealized_pl, rpl), ws))"

section \<open>The target-profit solver: \<^verbatim>\<open>calculate_shares_to_sell\<close>\<close>

text \<open>
  The function prints one of two reports per instrument; the model returns them.
  The local variable \<^verbatim>\<open>lot\<close> is read after the \<^verbatim>\<open>for lot in data.lots\<close> loop: it is the lot
  bound by the last iteration entered (also the one that executed \<^verbatim>\<open>break\<close>), it keeps its
  value from an earlier instrument when the list is empty, and reading it before any
  binding raises \<^verbatim>\<open>UnboundLocalError\<close>. The loop state therefore carries it as an option.
\<close>

datatype py_error = UnboundLocalError

datatype sale_report =
    Plan (plan_shares: real) (plan_proceeds: real) (plan_cost_basis: real) (plan_profit: real)
  | Not_Enough (all_shares: real) (max_profit: real)

fun solver_loop ::
  "real \<Rightarrow> real \<Rightarrow> Lot list \<Rightarrow> real \<times> real \<times> real \<times> real \<times> Lot option
     \<Rightarrow> real \<times> real \<times> real \<times> real \<times> Lot option" where
  "solver_loop price desired_profit [] acc = acc"
| "solver_loop price desired_profit (lot # rest)
     (shares_to_sell, realized_profit, total_proceeds, total_cost_basis, bound_lot) =
     (if realized_profit \<ge> desired_profit
      then (shares_to_sell, realized_profit, total_proceeds, total_cost_basis, Some lot)
      else
        (let sellable_shares = shares lot;
             proceeds = sellable_shares * price;
             cost_basis = sellable_shares * cost_per_share lot;
             profit = proceeds - cost_basis
         in solver_loop price desired_profit rest
              (shares_to_sell + sellable_shares, realized_profit + profit,
               total_proceeds + proceeds, total_cost_basis + cost_basis, Some lot)))"

text \<open>The body of \<^verbatim>\<open>if data.total_shares > 0 and data.current_price:\<close> for one entry.\<close>

definition calculate_entry ::
  "Lot option \<Rightarrow> real \<Rightarrow> Lot list \<Rightarrow> real \<Rightarrow> py_error + sale_report \<times> Lot option" where
  "calculate_entry bound_lot price ls desired_profit =
     (case solver_loop price desired_profit ls (0, 0, 0, 0, bound_lot) of
        (shares_to_sell, realized_profit, total_proceeds, total_cost_basis, bound_lot') \<Rightarrow>
          if realized_profit \<ge> desired_profit then
            (case bound_lot' of
               None \<Rightarrow> Inl UnboundLocalError
             | Some lot \<Rightarrow>
                 (let excess_profit = realized_profit - desired_profit;
                      excess_shares =
                        (if price \<noteq> cost_per_share lot
                         then excess_profit / (price - cost_per_share lot) else 0)
                  in Inr (Plan (shares_to_sell - excess_shares)
                               (total_proceeds - excess_shares * price)
                               (total_cost_basis - excess_shares * cost_per_share lot)
                               desired_profit,
                          bound_lot')))
          else Inr (Not_Enough shares_to_sell realized_profit, bound_lot'))"

text \<open>
  The loop over the instruments. \<^verbatim>\<open>data.current_price\<close> is tested for truth: \<^verbatim>\<open>None\<close> and
  \<^verbatim>\<open>0.0\<close> are both false.
\<close>

fun calculate_loop ::
  "real \<Rightarrow> (string \<times> HoldingsData) list \<Rightarrow> Lot option \<Rightarrow> (string \<times> sale_report) list
     \<Rightarrow> py_error + (string \<times> sale_report) list" where
  "calculate_loop desired_profit [] bound_lot out = Inr out"
| "calculate_loop desired_profit ((instrument, data) # rest) bound_lot out =
     (if total_shares data > 0 \<and> current_price data \<noteq> None \<and> current_price data \<noteq> Some 0
      then
        (case calculate_entry bound_lot (the (current_price data)) (lots data) desired_profit of
           Inl e \<Rightarrow> Inl e
         | Inr (report, bound_lot') \<Rightarrow>
             calculate_loop desired_profit rest bound_lot' (out @ [(instrument, report)]))
      else calculate_loop desired_profit rest bound_lot out)"

definition calculate_shares_to_sell ::
  "(string \<times> HoldingsData) list \<Rightarrow> real \<Rightarrow> py_error + (string \<times> sale_report) list" where
  "calculate_shares_to_sell hs desired_profit = calculate_loop desired_profit hs None []"

section \<open>The calls of \<^verbatim>\<open>main\<close>\<close>

text \<open>
  \<^verbatim>\<open>main\<close> calls \<^verbatim>\<open>simulate_portfolio\<close> and then \<^verbatim>\<open>calculate_shares_to_sell\<close> on the
  dictionary it returned. \<^verbatim>\<open>calculate_shares_to_sell\<close> has no assignment to the dictionary,
  to an entry or to a lot, so the portfolio after the two calls is the one returned by the
  first; the model returns it with the solver's reports.
\<close>

definition valuation_then_solver ::
  "(string \<times> HoldingsData) list \<Rightarrow> real \<Rightarrow> real
     \<Rightarrow> ((string \<times> HoldingsData) list \<times> real) \<times> (py_error + (string \<times> sale_report) list)" where
  "valuation_then_solver hs rpl desired_profit =
     (case simulate_portfolio hs rpl of
        ((hs', total_current_value, total_profit, total_unrealized_pl, rpl'), ws) \<Rightarrow>
          ((hs', rpl'), calculate_shares_to_sell hs' desired_profit))"

text \<open>From the transactions to the solver's reports, for a desired profit that parses.\<close>

definition portfolio_run :: "Row list \<Rightarrow> real \<Rightarrow> py_error + (string \<times> sale_report) list" where
  "portfolio_run transactions desired_profit =
     (let st = process_transactions transactions
      in snd (valuation_then_solver (holdings st) (realized_pl st) desired_profit))"

section \<open>Properties stated declaratively\<close>

subsection \<open>The ledger invariant\<close>

definition entry_balanced :: "HoldingsData \<Rightarrow> bool" where
  "entry_balanced h \<longleftrightarrow> total_shares h = lot_shares_sum (lots h)"

definition ledger_invariant :: "PortfolioState \<Rightarrow> bool" where
  "ledger_invariant st \<longleftrightarrow> list_all (\<lambda>(k, h). entry_balanced h) (holdings st)"

text \<open>Lots of the data model hold a non-negative number of shares.\<close>

definition lots_nonneg :: "Lot list \<Rightarrow> bool" where
  "lots_nonneg ls \<longleftrightarrow> list_all (\<lambda>l. 0 \<le> shares l) ls"

definition ledger_lots_nonneg :: "PortfolioState \<Rightarrow> bool" where
  "ledger_lots_nonneg st \<longleftrightarrow> list_all (\<lambda>(k, h). lots_nonneg (lots h)) (holdings st)"

definition rows_nonneg :: "Row list \<Rightarrow> bool" where
  "rows_nonneg rows \<longleftrightarrow>
     list_all (\<lambda>row. case Shares row of Some n \<Rightarrow> 0 \<le> n | None \<Rightarrow> True) rows"

subsection \<open>First-in-first-out disposal, lot by lot\<close>

text \<open>
  A disposal of \<open>n\<close> shares, described per lot and without a loop. When the \<open>i\<close>-th lot of
  the queue is reached, \<open>demand n ls i\<close> shares are still to be sold: \<open>n\<close> less all the older
  lots. The lot gives \<open>consumed n ls i\<close> of its shares, it is popped when the demand is
  positive and covers it wholly, and it is reduced in place (or left alone) otherwise.
\<close>

definition demand :: "real \<Rightarrow> Lot list \<Rightarrow> nat \<Rightarrow> real" where
  "demand n ls i = n - lot_shares_sum (take i ls)"

definition consumed :: "real \<Rightarrow> Lot list \<Rightarrow> nat \<Rightarrow> real" where
  "consumed n ls i = min (shares (ls ! i)) (max 0 (demand n ls i))"

definition popped :: "real \<Rightarrow> Lot list \<Rightarrow> nat \<Rightarrow> bool" where
  "popped n ls i \<longleftrightarrow> 0 < demand n ls i \<and> shares (ls ! i) \<le> demand n ls i"

definition fifo_remaining :: "real \<Rightarrow> Lot list \<Rightarrow> Lot list" where
  "fifo_remaining n ls =
     map (\<lambda>i. (ls ! i)\<lparr>shares := shares (ls ! i) - consumed n ls i\<rparr>)
         (filter (\<lambda>i. \<not> popped n ls i) [0..<length ls])"

definition fifo_profit :: "real \<Rightarrow> real \<Rightarrow> Lot list \<Rightarrow> real" where
  "fifo_profit p n ls =
     sum_list (map (\<lambda>i. (p - cost_per_share (ls ! i)) * consumed n ls i) [0..<length ls])"

definition fifo_sold :: "real \<Rightarrow> Lot list \<Rightarrow> real" where
  "fifo_sold n ls = sum_list (map (consumed n ls) [0..<length ls])"

subsection \<open>Valuation, entry by entry\<close>

definition lots_cost :: "Lot list \<Rightarrow> real" where
  "lots_cost ls = sum_list (map (\<lambda>l. shares l * cost_per_share l) ls)"

definition priced :: "string \<times> HoldingsData \<Rightarrow> bool" where
  "priced e \<longleftrightarrow> total_shares (snd e) > 0 \<and> map_of FIXED_PRICES (fst e) \<noteq> None"

definition unpriced :: "string \<times> HoldingsData \<Rightarrow> bool" where
  "unpriced e \<longleftrightarrow> total_shares (snd e) > 0 \<and> map_of FIXED_PRICES (fst e) = None"

definition entry_value :: "string \<times> HoldingsData \<Rightarrow> real" where
  "entry_value e = total_shares (snd e) * the (map_of FIXED_PRICES (fst e))"

definition annotated :: "real \<Rightarrow> HoldingsData \<Rightarrow> HoldingsData" where
  "annotated p h =
     h\<lparr>current_price := Some p,
       current_value := Some (total_shares h * p),
       total_cost := Some (lots_cost (lots h)),
       unrealized_pl := Some (total_shares h * p - lots_cost (lots h))\<rparr>"

definition valued_entry :: "string \<times> HoldingsData \<Rightarrow> string \<times> HoldingsData" where
  "valued_entry e =
     (fst e, if priced e then annotated (the (map_of FIXED_PRICES (fst e))) (snd e) else snd e)"

text \<open>What the ledger owns of an entry: its key, its lot queue and its share count.\<close>

definition ledger_part :: "string \<times> HoldingsData \<Rightarrow> string \<times> Lot list \<times> real" where
  "ledger_part e = (fst e, lots (snd e), total_shares (snd e))"

subsection \<open>The solver's running profit\<close>

text \<open>The profit of selling all of \<open>ls\<close> at \<open>price\<close>, as the solver accumulates it.\<close>

definition running_profit :: "real \<Rightarrow> Lot list \<Rightarrow> real" where
  "running_profit price ls =
     sum_list (map (\<lambda>l. shares l * price - shares l * cost_per_share l) ls)"

subsection \<open>Share arithmetic without rounding\<close>





section \<open>Example data\<close>

definition buy_row :: "real \<Rightarrow> real \<Rightarrow> string \<Rightarrow> Row" where
  "buy_row n cost d =
     \<lparr>Transaction_Type = ''Buy'', Instrument_Name = ''Amundi MSCI World V'',
      Amount = Some (- cost), Shares = Some n, Date = Some d\<rparr>"

definition sell_row :: "real \<Rightarrow> real \<Rightarrow> Row" where
  "sell_row n proceeds =
     \<lparr>Transaction_Type = ''Sell'', Instrument_Name = ''Amundi MSCI World V'',
      Amount = Some proceeds, Shares = Some n, Date = Some ''2024-03-01''\<rparr>"

definition distribution_row :: "real \<Rightarrow> Row" where
  "distribution_row a =
     \<lparr>Transaction_Type = ''Distribution'', Instrument_Name = '''', Amount = Some a,
      Shares = Some 0, Date = Some ''2024-01-02''\<rparr>"

definition lot_a :: Lot where
  "lot_a = \<lparr>date = ''2024-01-02'', shares = 10, cost_per_share = 5\<rparr>"

definition lot_b :: Lot where
  "lot_b = \<lparr>date = ''2024-02-01'', shares = 10, cost_per_share = 7\<rparr>"

definition lot_c :: Lot where
  "lot_c = \<lparr>date = ''2024-01-02'', shares = 10, cost_per_share = 8.80\<rparr>"

definition lot_e :: Lot where
  "lot_e = \<lparr>date = ''2024-01-05'', shares = 5, cost_per_share = 2\<rparr>"

definition lot_f :: Lot where
  "lot_f = \<lparr>date = ''2024-01-02'', shares = 10, cost_per_share = 15\<rparr>"

definition entry_of :: "Lot list \<Rightarrow> real \<Rightarrow> HoldingsData" where
  "entry_of ls n = \<lparr>lots = ls, total_shares = n, current_price = None, current_value = None,
     total_cost = None, unrealized_pl = None\<rparr>"

definition two_lots :: PortfolioState where
  "two_lots = \<lparr>holdings = [(''amundi msci world v (acc)'', entry_of [lot_a, lot_b] 20)],
      realized_pl = 0, warnings = []\<rparr>"

definition mixed_holdings :: "(string \<times> HoldingsData) list" where
  "mixed_holdings =
     [(''amundi msci world v (acc)'', entry_of [lot_c] 10),
      (''unlisted fund'', entry_of [lot_e] 5)]"

definition mixed_valued :: "(string \<times> HoldingsData) list" where
  "mixed_valued =
     [(''amundi msci world v (acc)'',
       \<lparr>lots = [lot_c], total_shares = 10, current_price = Some 18.80,
        current_value = Some 188, total_cost = Some 88, unrealized_pl = Some 100\<rparr>),
      (''unlisted fund'', entry_of [lot_e] 5)]"




definition lot_g :: Lot where
  "lot_g = \<lparr>date = ''2024-02-01'', shares = 10, cost_per_share = 12\<rparr>"

section \<open>Evaluating the string functions\<close>

lemma strip_Distribution: "strip ''Distribution'' = ''Distribution''"
  by (simp add: strip_def is_space_def)

lemma strip_Sell: "strip ''Sell'' = ''Sell''"
  by (simp add: strip_def is_space_def)

lemma strip_Buy: "strip ''Buy'' = ''Buy''"
  by (simp add: strip_def is_space_def)

lemma strip_world: "strip ''Amundi MSCI World V'' = ''Amundi MSCI World V''"
  by (simp add: strip_def is_space_def)

lemma INSTRUMENT_ALIAS_eq:
  "INSTRUMENT_ALIAS =
     [(''amundi msci world v (acc)'', ''amundi msci world v (acc)''),
      (''amundi msci world v ucits etf acc'', ''amundi msci world v (acc)''),
      (''amundi msci world v'', ''amundi msci world v (acc)''),
      (''lyxor core msci world (dr) ucits etf - acc'', ''amundi msci world v (acc)''),
      (''ishares core msci europe (acc)'', ''ishares core msci europe (acc)''),
      (''ishares core msci europe ucits etf eur (acc)'', ''ishares core msci europe (acc)''),
      (''ishares core msci europe ucits etf eur'', ''ishares core msci europe (acc)''),
      (''ishares core msci europe'', ''ishares core msci europe (acc)''),
      (''amundi msci emerging markets ii (dist)'', ''amundi msci emerging markets ii (dist)''),
      (''amundi msci emerging markets ii ucits etf dist'',
       ''amundi msci emerging markets ii (dist)''),
      (''amundi msci emerging markets ii ucits etf'', ''amundi msci emerging markets ii (dist)''),
      (''amundi msci emerging markets ii'', ''amundi msci emerging markets ii (dist)''),
      (''lyxor msci emerging markets (lux) ucits etf'',
       ''amundi msci emerging markets ii (dist)''),
      (''lu2573966905'', ''amundi msci emerging markets ii (dist)'')]"
  by code_simp

lemma canonical_world:
  "get_canonical_name ''Amundi MSCI World V'' = ''amundi msci world v (acc)''"
  by (simp add: get_canonical_name_def INSTRUMENT_ALIAS_eq lower_def lower_char_def)

lemma price_world: "map_of FIXED_PRICES ''amundi msci world v (acc)'' = Some 18.80"
  by (simp add: FIXED_PRICES_def)

lemma price_unlisted: "map_of FIXED_PRICES ''unlisted fund'' = None"
  by (simp add: FIXED_PRICES_def)

section \<open>Rows by transaction type\<close>

lemma sell_step:
  assumes "strip (Transaction_Type row) = ''Sell'' \<or> strip (Transaction_Type row) = ''Swap out''"
    and "Amount row = Some amount" and "Shares row = Some n"
  shows "process_row st row = sell st (get_canonical_name (strip (Instrument_Name row))) amount n"
  using assms by (auto simp: process_row_def Let_def)

lemma buy_row_step:
  "process_row st (buy_row n cost d) = buy st ''amundi msci world v (acc)'' d (- cost) n"
  by (simp add: process_row_def buy_row_def strip_Buy strip_world canonical_world)

lemma sell_row_fields:
  "strip (Transaction_Type (sell_row n a)) = ''Sell''"
  "Amount (sell_row n a) = Some a"
  "Shares (sell_row n a) = Some n"
  "get_canonical_name (strip (Instrument_Name (sell_row n a))) = ''amundi msci world v (acc)''"
  by (simp_all add: sell_row_def strip_Sell strip_world canonical_world)

lemma two_buys:
  "run_rows empty_state [buy_row 10 50 ''2024-01-02'', buy_row 10 70 ''2024-02-01''] = two_lots"
  by (simp add: buy_row_step buy_def empty_state_def new_entry_def two_lots_def entry_of_def
      lot_a_def lot_b_def)

lemma two_lots_entry:
  "map_of (holdings two_lots) ''amundi msci world v (acc)'' = Some (entry_of [lot_a, lot_b] 20)"
  by (simp add: two_lots_def)



section \<open>Distributions\<close>

text \<open>
  Claim C8. A Distribution row whose amount parses adds exactly that amount to the realized
  P&L and changes nothing else: the holdings and the warning log stay as they are. Processed
  on the empty portfolio it creates no Holdings Entry.
\<close>

theorem distribution_isolation:
  assumes "strip (Transaction_Type row) = ''Distribution''" and "Amount row = Some amount"
  shows "process_row st row = st\<lparr>realized_pl := realized_pl st + amount\<rparr>
       \<and> holdings (process_row st row) = holdings st
       \<and> warnings (process_row st row) = warnings st
       \<and> process_transactions [row] = \<lparr>holdings = [], realized_pl = amount, warnings = []\<rparr>"
  using assms by (simp add: process_row_def process_transactions_def empty_state_def)

text \<open>A Distribution of 12.34 with no prior holdings.\<close>

theorem distribution_isolation_witness:
  "process_transactions [distribution_row 12.34]
     = \<lparr>holdings = [], realized_pl = 12.34, warnings = []\<rparr>"
  using distribution_isolation [of "distribution_row 12.34" "12.34" empty_state]
  by (simp add: distribution_row_def strip_Distribution)

section \<open>Invariants of the ledger\<close>

lemma run_rows_append: "run_rows st (xs @ ys) = run_rows (run_rows st xs) ys"
  by (induction xs arbitrary: st) simp_all

text \<open>The state after the first \<open>i\<close> transactions is the state of the loop at that point.\<close>

lemma process_transactions_prefix:
  "process_transactions transactions =
     run_rows (process_transactions (take i transactions)) (drop i transactions)"
  unfolding process_transactions_def run_rows_append [symmetric] by simp


lemma list_all_update:
  "list_all P al \<Longrightarrow> P (k, v) \<Longrightarrow> list_all P (AList.update k v al)"
  by (induction al) auto

lemma list_all_map_of:
  "list_all P al \<Longrightarrow> map_of al k = Some v \<Longrightarrow> P (k, v)"
  by (induction al) (auto split: if_splits)

lemma fifo_loop_balance:
  "fifo_loop p n ls tot rpl = (s, ls', tot', rpl') \<Longrightarrow>
     tot' - lot_shares_sum ls' = tot - lot_shares_sum ls"
proof (induction ls arbitrary: n tot rpl)
  case Nil
  then show ?case by simp
next
  case (Cons l ls)
  show ?case
  proof (cases "0 < n \<and> shares l \<le> n")
    case True
    with Cons.prems have "fifo_loop p (n - shares l) ls (tot - shares l)
        (rpl + (p - cost_per_share l) * shares l) = (s, ls', tot', rpl')"
      by simp
    from Cons.IH [OF this] show ?thesis by (simp add: lot_shares_sum_def)
  next
    case False
    with Cons.prems show ?thesis
      by (auto simp: lot_shares_sum_def split: if_splits)
  qed
qed

lemma fifo_loop_nonneg:
  "lots_nonneg ls \<Longrightarrow> fifo_loop p n ls tot rpl = (s, ls', tot', rpl') \<Longrightarrow> lots_nonneg ls'"
proof (induction ls arbitrary: n tot rpl)
  case Nil
  then show ?case by simp
next
  case (Cons l ls)
  then have nn: "lots_nonneg ls" by (simp add: lots_nonneg_def)
  show ?case
  proof (cases "0 < n \<and> shares l \<le> n")
    case True
    with Cons.prems have "fifo_loop p (n - shares l) ls (tot - shares l)
        (rpl + (p - cost_per_share l) * shares l) = (s, ls', tot', rpl')"
      by simp
    from Cons.IH [OF nn this] show ?thesis .
  next
    case False
    with Cons.prems show ?thesis
      by (auto simp: lots_nonneg_def split: if_splits)
  qed
qed

lemma buy_invariant: "ledger_invariant st \<Longrightarrow> ledger_invariant (buy st c d a n)"
  unfolding ledger_invariant_def buy_def Let_def
  by (auto intro!: list_all_update dest: list_all_map_of
      simp: entry_balanced_def lot_shares_sum_def new_entry_def split: option.splits)

lemma buy_nonneg: "ledger_lots_nonneg st \<Longrightarrow> 0 \<le> n \<Longrightarrow> ledger_lots_nonneg (buy st c d a n)"
  unfolding ledger_lots_nonneg_def buy_def Let_def
  by (auto intro!: list_all_update dest: list_all_map_of
      simp: lots_nonneg_def new_entry_def split: option.splits)

lemma sell_invariant:
  assumes "ledger_invariant st"
  shows "ledger_invariant (sell st c a n)"
proof (cases "map_of (holdings st) c")
  case None
  with assms show ?thesis by (simp add: sell_def ledger_invariant_def)
next
  case (Some h)
  obtain s ls tot rpl where
    loop: "fifo_loop (if n \<noteq> 0 then a / n else 0) n (lots h) (total_shares h) (realized_pl st)
           = (s, ls, tot, rpl)"
    by (metis prod_cases4)
  from assms Some have "entry_balanced h"
    unfolding ledger_invariant_def by (auto dest: list_all_map_of)
  with fifo_loop_balance [OF loop] have "tot = lot_shares_sum ls"
    by (simp add: entry_balanced_def)
  with assms Some loop show ?thesis
    unfolding ledger_invariant_def sell_def Let_def
    by (auto intro!: list_all_update simp: entry_balanced_def)
qed

lemma sell_nonneg:
  assumes "ledger_lots_nonneg st"
  shows "ledger_lots_nonneg (sell st c a n)"
proof (cases "map_of (holdings st) c")
  case None
  with assms show ?thesis by (simp add: sell_def ledger_lots_nonneg_def)
next
  case (Some h)
  obtain s ls tot rpl where
    loop: "fifo_loop (if n \<noteq> 0 then a / n else 0) n (lots h) (total_shares h) (realized_pl st)
           = (s, ls, tot, rpl)"
    by (metis prod_cases4)
  from assms Some have "lots_nonneg (lots h)"
    unfolding ledger_lots_nonneg_def by (auto dest: list_all_map_of)
  from fifo_loop_nonneg [OF this loop] assms Some loop show ?thesis
    unfolding ledger_lots_nonneg_def sell_def Let_def
    by (auto intro!: list_all_update)
qed

lemma process_row_invariant:
  "ledger_invariant st \<Longrightarrow> ledger_invariant (process_row st row)"
  unfolding process_row_def Let_def
  by (auto simp: buy_invariant sell_invariant split: option.splits)
    (simp_all add: ledger_invariant_def)

lemma process_row_nonneg:
  "ledger_lots_nonneg st \<Longrightarrow> rows_nonneg [row] \<Longrightarrow> ledger_lots_nonneg (process_row st row)"
  unfolding process_row_def Let_def rows_nonneg_def
  by (auto simp: buy_nonneg sell_nonneg split: option.splits)
    (simp_all add: ledger_lots_nonneg_def)

lemma run_rows_invariant:
  "ledger_invariant st \<Longrightarrow> ledger_invariant (run_rows st rows)"
  by (induction rows arbitrary: st) (simp_all add: process_row_invariant)

lemma run_rows_nonneg:
  "ledger_lots_nonneg st \<Longrightarrow> rows_nonneg rows \<Longrightarrow> ledger_lots_nonneg (run_rows st rows)"
proof (induction rows arbitrary: st)
  case Nil
  then show ?case by simp
next
  case (Cons row rows)
  then have "rows_nonneg [row]" and "rows_nonneg rows"
    by (simp_all add: rows_nonneg_def)
  with Cons.prems(1) Cons.IH show ?case
    by (simp add: process_row_nonneg)
qed

lemma process_transactions_invariant: "ledger_invariant (process_transactions rows)"
  unfolding process_transactions_def
  by (rule run_rows_invariant) (simp add: ledger_invariant_def empty_state_def)

text \<open>
  Transactions with non-negative share counts only ever build lots with non-negative
  shares, so the hypotheses on lots used below hold in every ledger built from such rows.
\<close>

lemma process_transactions_nonneg:
  "rows_nonneg rows \<Longrightarrow> ledger_lots_nonneg (process_transactions rows)"
  unfolding process_transactions_def
  by (rule run_rows_nonneg) (simp_all add: ledger_lots_nonneg_def empty_state_def)

section \<open>First-in-first-out disposal\<close>


lemma demand_Cons [simp]:
  "demand n (l # ls) 0 = n"
  "demand n (l # ls) (Suc i) = demand (n - shares l) ls i"
  by (simp_all add: demand_def lot_shares_sum_def)

lemma consumed_Cons [simp]:
  "consumed n (l # ls) 0 = min (shares l) (max 0 n)"
  "consumed n (l # ls) (Suc i) = consumed (n - shares l) ls i"
  by (simp_all add: consumed_def)

lemma popped_Cons [simp]:
  "popped n (l # ls) 0 \<longleftrightarrow> 0 < n \<and> shares l \<le> n"
  "popped n (l # ls) (Suc i) \<longleftrightarrow> popped (n - shares l) ls i"
  by (simp_all add: popped_def)

lemma fifo_remaining_Nil [simp]: "fifo_remaining n [] = []"
  by (simp add: fifo_remaining_def)


lemma fifo_profit_Nil [simp]: "fifo_profit p n [] = 0"
  by (simp add: fifo_profit_def)


lemma fifo_sold_Nil [simp]: "fifo_sold n [] = 0"
  by (simp add: fifo_sold_def)







text \<open>
  Claim C10. A Sell or Swap-out of 0 shares of an instrument that has a Holdings Entry
  leaves the holdings (so the entry's lots and \<open>total_shares\<close>) and the realized P&L
  unchanged and prints neither the over-sell nor the untracked-instrument warning: the log
  is unchanged when the amount parses, and gets the skipped-transaction warning when it
  does not.
\<close>

theorem zero_share_sell_noop:
  assumes ty: "strip (Transaction_Type row) = ''Sell'' \<or> strip (Transaction_Type row) = ''Swap out''"
    and sh: "Shares row = Some 0"
    and h: "map_of (holdings st) (get_canonical_name (strip (Instrument_Name row))) = Some h"
  shows "holdings (process_row st row) = holdings st
       \<and> realized_pl (process_row st row) = realized_pl st
       \<and> warnings (process_row st row) =
           warnings st @ (case Amount row of None \<Rightarrow> [Skipping_Invalid_Transaction row]
                          | Some amount \<Rightarrow> [])"
proof (cases "Amount row")
  case None
  with ty sh show ?thesis by (auto simp: process_row_def Let_def)
next
  case (Some amount)
  have "fifo_loop 0 0 (lots h) (total_shares h) (realized_pl st)
          = (0, lots h, total_shares h, realized_pl st)"
    by (cases "lots h") simp_all
  with h Some show ?thesis
    unfolding sell_step [OF ty Some sh] sell_def
    by (simp add: update_triv)
qed

theorem zero_share_sell_noop_witness:
  "holdings (process_row two_lots (sell_row 0 0)) = holdings two_lots
   \<and> realized_pl (process_row two_lots (sell_row 0 0)) = realized_pl two_lots
   \<and> warnings (process_row two_lots (sell_row 0 0)) = warnings two_lots"
  using zero_share_sell_noop [of "sell_row 0 0" two_lots "entry_of [lot_a, lot_b] 20"]
  by (simp add: sell_row_fields two_lots_entry)

section \<open>The ledger in double precision\<close>

subsection \<open>Evaluation\<close>












subsection \<open>The exact reading\<close>

text \<open>With the identity for \<open>rnd\<close> the rounded ledger is the exact one.\<close>

lemma fifo_loop_fl_identity: "fifo_loop_fl (\<lambda>x. x) p n ls tot rpl = fifo_loop p n ls tot rpl"
  by (induction ls arbitrary: n tot rpl) simp_all

lemma buy_fl_identity: "buy_fl (\<lambda>x. x) st c d a n = buy st c d a n"
  by (simp add: buy_fl_def buy_def Let_def split: option.splits)

lemma sell_fl_identity: "sell_fl (\<lambda>x. x) st c a n = sell st c a n"
  by (simp add: sell_fl_def sell_def fifo_loop_fl_identity Let_def split: option.splits)

lemma process_row_fl_identity: "process_row_fl (\<lambda>x. x) st row = process_row st row"
  by (simp add: process_row_fl_def process_row_def buy_fl_identity sell_fl_identity Let_def
      split: option.splits)

lemma run_rows_fl_identity: "run_rows_fl (\<lambda>x. x) st rows = run_rows st rows"
  by (induction rows arbitrary: st) (simp_all add: process_row_fl_identity)

lemma process_transactions_fl_identity:
  "process_transactions_fl (\<lambda>x. x) rows = process_transactions rows"
  by (simp add: process_transactions_fl_def process_transactions_def run_rows_fl_identity)

subsection \<open>The invariant while no update of a share count rounds\<close>









subsection \<open>Selling more than is held\<close>





section \<open>Valuation\<close>

lemma fold_total_cost:
  "fold (\<lambda>lot tc. tc + shares lot * cost_per_share lot) ls a = a + lots_cost ls"
  by (induction ls arbitrary: a) (simp_all add: lots_cost_def)

lemma simulate_loop_spec:
  "simulate_loop hs seen tcv tupl ws =
     (seen @ map valued_entry hs,
      tcv + sum_list (map entry_value (filter priced hs)),
      tupl + sum_list (map (\<lambda>e. entry_value e - lots_cost (lots (snd e))) (filter priced hs)),
      ws @ map (\<lambda>e. No_Fixed_Price (fst e)) (filter unpriced hs))"
proof (induction hs arbitrary: seen tcv tupl ws)
  case Nil
  then show ?case by simp
next
  case (Cons e hs)
  obtain k h where e: "e = (k, h)" by (cases e)
  show ?case
  proof (cases "total_shares h > 0")
    case False
    then show ?thesis
      unfolding e by (simp add: Cons.IH priced_def unpriced_def valued_entry_def)
  next
    case True
    show ?thesis
    proof (cases "map_of FIXED_PRICES k")
      case None
      with True show ?thesis
        unfolding e by (simp add: Cons.IH priced_def unpriced_def valued_entry_def)
    next
      case (Some p)
      with True show ?thesis
        unfolding e
        by (simp add: Cons.IH priced_def unpriced_def valued_entry_def fold_total_cost
            entry_value_def annotated_def Let_def add.assoc)
    qed
  qed
qed

lemma simulate_portfolio_spec:
  "simulate_portfolio hs rpl =
     ((map valued_entry hs,
       sum_list (map entry_value (filter priced hs)),
       rpl + sum_list (map (\<lambda>e. entry_value e - lots_cost (lots (snd e))) (filter priced hs)),
       sum_list (map (\<lambda>e. entry_value e - lots_cost (lots (snd e))) (filter priced hs)),
       rpl),
      map (\<lambda>e. No_Fixed_Price (fst e)) (filter unpriced hs))"
  by (simp add: simulate_portfolio_def simulate_loop_spec)

lemma map_of_valued:
  "distinct (map fst hs) \<Longrightarrow> (k, h) \<in> set hs \<Longrightarrow>
     map_of (map valued_entry hs) k = Some (snd (valued_entry (k, h)))"
proof (induction hs)
  case Nil
  then show ?case by simp
next
  case (Cons e hs)
  show ?case
  proof (cases "e = (k, h)")
    case True
    then show ?thesis by (simp add: valued_entry_def)
  next
    case False
    with Cons.prems have mem: "(k, h) \<in> set hs" by simp
    with Cons.prems have "fst e \<noteq> k" by (force simp: image_iff)
    with Cons.IH mem Cons.prems show ?thesis by (simp add: valued_entry_def)
  qed
qed

lemma ledger_part_valued: "ledger_part (valued_entry e) = ledger_part e"
  by (simp add: ledger_part_def valued_entry_def annotated_def)

lemma simulate_mixed:
  "simulate_portfolio mixed_holdings 7 =
     ((mixed_valued, 188, 107, 100, 7), [No_Fixed_Price ''unlisted fund''])"
  by (simp add: simulate_portfolio_def mixed_holdings_def mixed_valued_def price_world
      price_unlisted entry_of_def lot_c_def Let_def)

text \<open>
  Claim C7. For a dictionary of holdings (distinct keys), every entry with
  \<open>total_shares > 0\<close> and a price \<open>p\<close> in the price table gets
  \<open>current_price = p\<close>, \<open>current_value = total_shares * p\<close>,
  \<open>total_cost = sum of shares * cost_per_share over its lots\<close> and
  \<open>unrealized_pl = current_value - total_cost\<close>; an entry with \<open>total_shares > 0\<close> and no
  price is left as it is and gets a warning; the totals sum the value and the unrealized
  P&L of the priced entries only, and \<open>total_profit = realized_pl + total_unrealized_pl\<close>.
\<close>

theorem valuation_correct:
  assumes run: "simulate_portfolio hs rpl =
                  ((hs', total_current_value, total_profit, total_unrealized_pl, rpl'), ws)"
    and dist: "distinct (map fst hs)"
  shows "(\<forall>(k, h) \<in> set hs. \<forall>p. total_shares h > 0 \<and> map_of FIXED_PRICES k = Some p \<longrightarrow>
            map_of hs' k =
              Some (h\<lparr>current_price := Some p,
                      current_value := Some (total_shares h * p),
                      total_cost := Some (sum_list (map (\<lambda>l. shares l * cost_per_share l) (lots h))),
                      unrealized_pl := Some (total_shares h * p
                          - sum_list (map (\<lambda>l. shares l * cost_per_share l) (lots h)))\<rparr>))
       \<and> (\<forall>(k, h) \<in> set hs. total_shares h > 0 \<and> map_of FIXED_PRICES k = None \<longrightarrow>
            map_of hs' k = Some h \<and> No_Fixed_Price k \<in> set ws)
       \<and> total_current_value = sum_list (map entry_value (filter priced hs))
       \<and> total_unrealized_pl =
            sum_list (map (\<lambda>e. entry_value e - lots_cost (lots (snd e))) (filter priced hs))
       \<and> total_profit = rpl + total_unrealized_pl
       \<and> rpl' = rpl
       \<and> ws = map (\<lambda>e. No_Fixed_Price (fst e)) (filter unpriced hs)"
proof -
  from run have hs': "hs' = map valued_entry hs"
    and ws: "ws = map (\<lambda>e. No_Fixed_Price (fst e)) (filter unpriced hs)"
    and tcv: "total_current_value = sum_list (map entry_value (filter priced hs))"
    and tupl: "total_unrealized_pl =
            sum_list (map (\<lambda>e. entry_value e - lots_cost (lots (snd e))) (filter priced hs))"
    and tp: "total_profit = rpl + total_unrealized_pl" and rpl: "rpl' = rpl"
    unfolding simulate_portfolio_spec by simp_all
  have a: "\<forall>(k, h) \<in> set hs. \<forall>p. total_shares h > 0 \<and> map_of FIXED_PRICES k = Some p \<longrightarrow>
            map_of hs' k =
              Some (h\<lparr>current_price := Some p,
                      current_value := Some (total_shares h * p),
                      total_cost := Some (sum_list (map (\<lambda>l. shares l * cost_per_share l) (lots h))),
                      unrealized_pl := Some (total_shares h * p
                          - sum_list (map (\<lambda>l. shares l * cost_per_share l) (lots h)))\<rparr>)"
    using map_of_valued [OF dist]
    by (auto simp: hs' valued_entry_def priced_def annotated_def lots_cost_def)
  have b: "\<forall>(k, h) \<in> set hs. total_shares h > 0 \<and> map_of FIXED_PRICES k = None \<longrightarrow>
            map_of hs' k = Some h \<and> No_Fixed_Price k \<in> set ws"
    using map_of_valued [OF dist]
    by (force simp: hs' ws valued_entry_def priced_def unpriced_def image_iff)
  from a b tcv tupl tp rpl ws show ?thesis by blast
qed

text \<open>
  Ten shares bought at 8.80 and priced at 18.80 are valued; five shares of a fund without
  a price are skipped with a warning and add nothing to the totals.
\<close>

theorem valuation_correct_witness:
  "simulate_portfolio mixed_holdings 7 =
     ((mixed_valued, 188, 107, 100, 7), [No_Fixed_Price ''unlisted fund''])
   \<and> distinct (map fst mixed_holdings)
   \<and> map_of mixed_valued ''amundi msci world v (acc)'' =
       Some \<lparr>lots = [lot_c], total_shares = 10, current_price = Some 18.80,
             current_value = Some 188, total_cost = Some 88, unrealized_pl = Some 100\<rparr>
   \<and> map_of mixed_valued ''unlisted fund'' = Some (entry_of [lot_e] 5)
   \<and> sum_list (map entry_value (filter priced mixed_holdings)) = 188
   \<and> filter unpriced mixed_holdings = [(''unlisted fund'', entry_of [lot_e] 5)]"
proof -
  have dist: "distinct (map fst mixed_holdings)"
    by (simp add: mixed_holdings_def)
  have un: "filter unpriced mixed_holdings = [(''unlisted fund'', entry_of [lot_e] 5)]"
    by (simp add: mixed_holdings_def unpriced_def price_world price_unlisted entry_of_def)
  have look: "map_of mixed_valued ''amundi msci world v (acc)'' =
       Some \<lparr>lots = [lot_c], total_shares = 10, current_price = Some 18.80,
             current_value = Some 188, total_cost = Some 88, unrealized_pl = Some 100\<rparr>"
    "map_of mixed_valued ''unlisted fund'' = Some (entry_of [lot_e] 5)"
    by (simp_all add: mixed_valued_def)
  from valuation_correct [OF simulate_mixed dist] simulate_mixed dist un look
  show ?thesis by simp
qed

text \<open>
  Claim C9. Running the valuation and then the solver on any portfolio returns a portfolio
  with the same keys in the same order, the same lot queue (so every lot's shares and
  cost per share) and the same \<open>total_shares\<close> in every entry, and the same realized P&L;
  an entry after the two calls differs from the entry before them in the four derived
  fields at most. The solver's part of this is how \<open>valuation_then_solver\<close> models it:
  it returns reports and has no write to the portfolio.
\<close>

theorem valuation_solver_frame:
  assumes "valuation_then_solver hs rpl desired_profit = ((hs', rpl'), out)"
  shows "map ledger_part hs' = map ledger_part hs \<and> rpl' = rpl
       \<and> list_all2 (\<lambda>e e'. fst e' = fst e
             \<and> (snd e')\<lparr>current_price := current_price (snd e),
                        current_value := current_value (snd e),
                        total_cost := total_cost (snd e),
                        unrealized_pl := unrealized_pl (snd e)\<rparr> = snd e) hs hs'"
proof -
  from assms have hs': "hs' = map valued_entry hs" and rpl: "rpl' = rpl"
    unfolding valuation_then_solver_def simulate_portfolio_spec by simp_all
  have "map ledger_part (map valued_entry hs) = map ledger_part hs"
    by (simp add: ledger_part_valued o_def)
  moreover have "list_all2 (\<lambda>e e'. fst e' = fst e
             \<and> (snd e')\<lparr>current_price := current_price (snd e),
                        current_value := current_value (snd e),
                        total_cost := total_cost (snd e),
                        unrealized_pl := unrealized_pl (snd e)\<rparr> = snd e) hs (map valued_entry hs)"
    by (simp add: list_all2_map2 valued_entry_def annotated_def list_all2_same)
  ultimately show ?thesis using hs' rpl by simp
qed

theorem valuation_solver_frame_witness:
  "valuation_then_solver mixed_holdings 7 30 =
     ((mixed_valued, 7), Inr [(''amundi msci world v (acc)'', Plan 3 56.40 26.40 30)])
   \<and> map ledger_part mixed_valued = map ledger_part mixed_holdings"
proof -
  have run: "valuation_then_solver mixed_holdings 7 30 =
     ((mixed_valued, 7), Inr [(''amundi msci world v (acc)'', Plan 3 56.40 26.40 30)])"
    by (simp add: valuation_then_solver_def simulate_mixed calculate_shares_to_sell_def
        calculate_entry_def mixed_valued_def entry_of_def lot_c_def lot_e_def Let_def)
  from valuation_solver_frame [OF run] run show ?thesis by simp
qed

section \<open>The solver\<close>

lemma running_profit_Cons:
  "running_profit p (l # ls) = shares l * p - shares l * cost_per_share l + running_profit p ls"
  by (simp add: running_profit_def)

text \<open>While the running profit stays below the target the loop takes every lot.\<close>

lemma solver_loop_exhausted:
  "\<forall>k\<le>length ls. r + running_profit p (take k ls) < d \<Longrightarrow>
     solver_loop p d ls (s, r, tp, tc, b) =
       (s + lot_shares_sum ls, r + running_profit p ls,
        tp + lot_shares_sum ls * p, tc + lots_cost ls,
        if ls = [] then b else Some (last ls))"
proof (induction ls arbitrary: s r tp tc b)
  case Nil
  then show ?case by (simp add: lot_shares_sum_def running_profit_def lots_cost_def)
next
  case (Cons l ls)
  from Cons.prems have "r + running_profit p (take 0 (l # ls)) < d" by blast
  then have now: "\<not> d \<le> r" by (simp add: running_profit_def)
  have later: "\<forall>k\<le>length ls.
      (r + (shares l * p - shares l * cost_per_share l)) + running_profit p (take k ls) < d"
  proof (intro allI impI)
    fix k assume "k \<le> length ls"
    then have "Suc k \<le> length (l # ls)" by simp
    with Cons.prems have "r + running_profit p (take (Suc k) (l # ls)) < d" by blast
    then show "(r + (shares l * p - shares l * cost_per_share l)) + running_profit p (take k ls) < d"
      by (simp add: running_profit_Cons algebra_simps)
  qed
  from Cons.IH [OF later] now show ?case
    by (simp add: Let_def lot_shares_sum_def running_profit_Cons lots_cost_def algebra_simps)
qed

text \<open>The example of the specification: one lot of 10 shares at 5, price 10, target 30.\<close>

lemma solver_single_lot_example:
  "calculate_entry None 10 [lot_a] 30 = Inr (Plan 6 60 30 30, Some lot_a)"
  by (simp add: calculate_entry_def lot_a_def Let_def)

text \<open>
  Claim C3 (the code departs from it). Two buys of 10 shares, at 8.80 and at 16.80, are
  valued at the fixed price 18.80, and a profit of 30 is asked for. Selling 3 shares of the
  oldest lot realizes 30 (proceeds 56.40, cost basis 26.40). The first lot alone exceeds
  the target, so the loop stops on entering the second lot, and the adjustment that follows
  reads \<^verbatim>\<open>lot.cost_per_share\<close> of that second lot, of which nothing was sold: the report is
  -25 shares, proceeds -470 and cost basis -500.
\<close>

theorem solver_adjusts_wrong_lot:
  "portfolio_run [buy_row 10 88 ''2024-01-02'', buy_row 10 168 ''2024-02-01''] 30 =
     Inr [(''amundi msci world v (acc)'', Plan (- 25) (- 470) (- 500) 30)]"
  by (simp add: portfolio_run_def process_transactions_def buy_row_step buy_def empty_state_def
      new_entry_def valuation_then_solver_def simulate_portfolio_def price_world
      calculate_shares_to_sell_def calculate_entry_def Let_def)

text \<open>
  Claim C5, as stated, fails: ten shares bought at 8.80 and priced at 18.80, with a desired
  profit of -10, give a plan of -1 shares.
\<close>

theorem solver_negative_shares:
  "portfolio_run [buy_row 10 88 ''2024-01-02''] (- 10) =
     Inr [(''amundi msci world v (acc)'', Plan (- 1) (- 18.80) (- 8.80) (- 10))]
   \<and> \<not> 0 \<le> plan_shares (Plan (- 1) (- 18.80) (- 8.80) (- 10))"
  by (simp add: portfolio_run_def process_transactions_def buy_row_step buy_def empty_state_def
      new_entry_def valuation_then_solver_def simulate_portfolio_def price_world
      calculate_shares_to_sell_def calculate_entry_def Let_def)

text \<open>
  Where a desired loss exceeds what the oldest lot can give (10 shares at 15 and 10 at 12,
  price 10, target -60) the report is 12 shares costed at 180, out of a first lot of 10:
  the adjustment of claim C3 once more, on the lot that stopped the loop.
\<close>

lemma solver_loss_beyond_first_lot:
  "calculate_entry None 10 [lot_f, lot_g] (- 60) = Inr (Plan 12 120 180 (- 60), Some lot_f)"
  by (simp add: calculate_entry_def lot_f_def lot_g_def Let_def)

text \<open>
  Claim C5, amended. For a desired profit \<open>\<le> 0\<close> and a queue with at least one lot the
  solver terminates with a report and no error, and it accumulates no profit on the way:
  the comparison \<^verbatim>\<open>realized_profit >= desired_profit\<close> is not generalised in sign and
  holds before the first lot. The plan is right when the target is 0 (no share is sold),
  and when the target is a loss that the oldest lot alone can give (the price is below its
  cost and the loss of the whole lot reaches the target): then the share count is
  non-negative, within the oldest lot, with proceeds and cost basis of that many of its
  shares and a profit of exactly the desired amount. Of other targets nothing is said.
\<close>

theorem solver_nonpositive_target:
  assumes "desired_profit \<le> 0"
  shows "solver_loop price desired_profit (lot # rest) (0, 0, 0, 0, b) = (0, 0, 0, 0, Some lot)
       \<and> (\<exists>report. calculate_entry b price (lot # rest) desired_profit = Inr (report, Some lot))
       \<and> (desired_profit = 0 \<longrightarrow>
             calculate_entry b price (lot # rest) desired_profit = Inr (Plan 0 0 0 0, Some lot))
       \<and> (price < cost_per_share lot \<and> (price - cost_per_share lot) * shares lot \<le> desired_profit
             \<longrightarrow> (\<exists>s. calculate_entry b price (lot # rest) desired_profit =
                         Inr (Plan s (s * price) (s * cost_per_share lot) desired_profit, Some lot)
                      \<and> 0 \<le> s \<and> s \<le> shares lot
                      \<and> s * price - s * cost_per_share lot = desired_profit))"
proof (intro conjI impI)
  from assms show "solver_loop price desired_profit (lot # rest) (0, 0, 0, 0, b)
      = (0, 0, 0, 0, Some lot)"
    by simp
next
  from assms show "\<exists>report. calculate_entry b price (lot # rest) desired_profit
      = Inr (report, Some lot)"
    by (simp add: calculate_entry_def Let_def)
next
  assume "desired_profit = 0"
  then show "calculate_entry b price (lot # rest) desired_profit = Inr (Plan 0 0 0 0, Some lot)"
    by (simp add: calculate_entry_def)
next
  assume a: "price < cost_per_share lot \<and> (price - cost_per_share lot) * shares lot \<le> desired_profit"
  define s where "s = desired_profit / (price - cost_per_share lot)"
  from a have neg: "price - cost_per_share lot < 0" by simp
  then have ne: "price \<noteq> cost_per_share lot" by simp
  from assms ne have run: "calculate_entry b price (lot # rest) desired_profit =
      Inr (Plan s (s * price) (s * cost_per_share lot) desired_profit, Some lot)"
    by (simp add: calculate_entry_def s_def)
  from assms neg have s0: "0 \<le> s"
    by (simp add: s_def divide_nonpos_neg)
  from a have "shares lot * (price - cost_per_share lot) \<le> desired_profit"
    by (simp add: mult.commute)
  with neg have s1: "s \<le> shares lot"
    by (simp add: s_def neg_divide_le_eq)
  from ne have "s * (price - cost_per_share lot) = desired_profit"
    by (simp add: s_def)
  then have eq: "s * price - s * cost_per_share lot = desired_profit"
    by (simp add: algebra_simps)
  from run s0 s1 eq
  show "\<exists>s. calculate_entry b price (lot # rest) desired_profit =
              Inr (Plan s (s * price) (s * cost_per_share lot) desired_profit, Some lot)
           \<and> 0 \<le> s \<and> s \<le> shares lot
           \<and> s * price - s * cost_per_share lot = desired_profit"
    by blast
qed

text \<open>Ten shares bought at 15 and priced at 10: a loss of 10 is realized by selling 2.\<close>

theorem solver_nonpositive_target_witness:
  "solver_loop 10 (- 10) [lot_f] (0, 0, 0, 0, None) = (0, 0, 0, 0, Some lot_f)
   \<and> calculate_entry None 10 [lot_f] (- 10) = Inr (Plan 2 20 30 (- 10), Some lot_f)
   \<and> (10 < cost_per_share lot_f \<and> (10 - cost_per_share lot_f) * shares lot_f \<le> - 10)
   \<and> calculate_entry None 10 [lot_f] 0 = Inr (Plan 0 0 0 0, Some lot_f)"
  using solver_nonpositive_target [of "- 10" 10 lot_f "[]" None]
    solver_nonpositive_target [of 0 10 lot_f "[]" None]
  by (simp add: calculate_entry_def lot_f_def)

text \<open>
  Claim C6. When the lots are exhausted before the running profit reaches the desired
  profit (the running profit is below it before every lot and after the last one), the
  solver fails in no way: it returns the report that names the shares of all the lots and
  the profit of selling every lot at the current price.
\<close>

theorem solver_infeasible:
  assumes "\<forall>k\<le>length ls. running_profit price (take k ls) < desired_profit"
  shows "calculate_entry b price ls desired_profit =
           Inr (Not_Enough (lot_shares_sum ls) (running_profit price ls),
                if ls = [] then b else Some (last ls))"
proof -
  from assms have pre: "\<forall>k\<le>length ls. 0 + running_profit price (take k ls) < desired_profit"
    by simp
  from assms have "running_profit price (take (length ls) ls) < desired_profit" by blast
  then have "\<not> desired_profit \<le> running_profit price ls" by simp
  then show ?thesis
    unfolding calculate_entry_def solver_loop_exhausted [OF pre] by simp
qed

text \<open>One lot of 10 shares at 5, price 10, target 1000: all 10 shares give 50.\<close>

theorem solver_infeasible_witness:
  "calculate_entry None 10 [lot_a] 1000 = Inr (Not_Enough 10 50, Some lot_a)"
proof -
  have "\<forall>k\<le>length [lot_a]. running_profit 10 (take k [lot_a]) < 1000"
  proof (intro allI impI)
    fix k :: nat assume "k \<le> length [lot_a]"
    then have "k = 0 \<or> k = 1" by auto
    then show "running_profit 10 (take k [lot_a]) < 1000"
      by (auto simp: running_profit_def lot_a_def)
  qed
  from solver_infeasible [OF this, of None] show ?thesis
    by (simp add: lot_shares_sum_def running_profit_def lot_a_def)
qed

end
